theory Spec2Isabelle
  imports Main "HOL-Library.AList"
begin

section \<open>Data model\<close>

text \<open>
  JSON documents as \<^verbatim>\<open>json.loads\<close> produces them, and at the same time the runtime
  shapes \<^verbatim>\<open>load_params\<close> tells apart: \<open>JStr\<close> is a Python \<^verbatim>\<open>str\<close>, \<open>JObj\<close> a
  \<^verbatim>\<open>dict\<close>, every other constructor a value that is neither. Numbers are integers here;
  floating point values play no part in what is proved. A Python dictionary is an
  association list in insertion order; \<open>AList.update\<close> is \<^verbatim>\<open>d[k] = v\<close> (it overwrites in
  place when the key is there and appends otherwise).
\<close>

datatype json =
    JNull
  | JBool bool
  | JNum int
  | JStr string
  | JArr "json list"
  | JObj "(string \<times> json) list"

type_synonym 'v dict = "(string \<times> 'v) list"

text \<open>
  Modelled from the spec: the marshmallow field objects that \<^verbatim>\<open>utils.get_type\<close> and
  \<^verbatim>\<open>schema.get_param_schema\<close> return are not under src/. Section 4.1 names the
  semantic types a type validator stands for, section 4.2 the two kinds of dimension
  validator (enumerated set, ordered range whose bounds are fixed or refer to the value of
  another parameter at the same label assignment).
\<close>

datatype semantic_type = Numeric | Boolean | String | Date

datatype bound = Fixed int | ValueOf string

datatype dimension_validator =
    EnumeratedSet "json list"
  | OrderedRange bound bound

datatype field =
    TypeField semantic_type
  | DimensionField dimension_validator

text \<open>
  Modelled from the spec: the aggregate failure of section 6 lists one record per violation
  (parameter name, entry index, field); section 4.4 names \<open>UnknownParameterError\<close>,
  section 4.5 \<open>ContextResolutionError\<close>.
\<close>

datatype violation =
    UnknownParameterError string
  | EntryViolation string nat string
  | ContextResolutionError string nat string
  | InvalidInput string

datatype error =
    TypeResolutionError
  | DimensionDefinitionError
  | ValidationError "violation list"
  | ValueError
  | AttributeError
  | JSONDecodeError
  | OSError

text \<open>
  The classes \<^verbatim>\<open>build_schemas\<close> creates with \<^verbatim>\<open>type(name, bases, classattrs)\<close>. The
  bases are the imported \<^verbatim>\<open>EmptySchema\<close> and \<^verbatim>\<open>BaseValidatorSchema\<close>, and the class
  \<^verbatim>\<open>get_param_schema\<close> returned, kept with the fields it declares.
\<close>

datatype base_class =
    EmptySchema
  | BaseValidatorSchema
  | ParamBase "field dict"

record 'a schema_class =
  cls_name :: string
  cls_bases :: "base_class list"
  classattrs :: "'a dict"

definition py_type :: "string \<Rightarrow> base_class list \<Rightarrow> 'a dict \<Rightarrow> 'a schema_class" where
  "py_type name bases attrs = \<lparr>cls_name = name, cls_bases = bases, classattrs = attrs\<rparr>"

text \<open>\<^verbatim>\<open>fields.Nested(schema, many=...)\<close>; \<^verbatim>\<open>many\<close> defaults to \<^verbatim>\<open>False\<close>.\<close>

record 'a nested =
  nested_schema :: 'a
  nested_many :: bool

definition Nested :: "'a \<Rightarrow> bool \<Rightarrow> 'a nested" where
  "Nested schema many = \<lparr>nested_schema = schema, nested_many = many\<rparr>"

text \<open>
  A schema instance \<^verbatim>\<open>cls(many=...)\<close>: marshmallow gives every instance a \<^verbatim>\<open>context\<close>
  dictionary of its own, empty at creation.
\<close>

record 'c schema_instance =
  inst_class :: 'c
  inst_many :: bool
  schema_context :: "json dict"

definition instantiate :: "'c \<Rightarrow> bool \<Rightarrow> 'c schema_instance" where
  "instantiate cls many = \<lparr>inst_class = cls, inst_many = many, schema_context = []\<rparr>"

type_synonym ValidatorItem = "field schema_class"
type_synonym IndividualParamSchema = "ValidatorItem nested schema_class"
type_synonym ParamSchema = "IndividualParamSchema nested schema_class"
type_synonym ValidatorSchema = "ValidatorItem schema_instance nested schema_class"

text \<open>
  The attributes of a \<^verbatim>\<open>SchemaBuilder\<close>. \<^verbatim>\<open>__init__\<close> sets the first three;
  \<^verbatim>\<open>param_schema\<close> and \<^verbatim>\<open>validator_schema\<close> do not exist (\<open>None\<close>) until
  \<^verbatim>\<open>build_schemas\<close> assigns them.
\<close>

record SchemaBuilder =
  BaseParamSchema :: base_class
  dim_validators :: "field dict"
  base_spec :: json
  param_schema :: "ParamSchema schema_instance option"
  validator_schema :: "ValidatorSchema schema_instance option"

text \<open>
  What the module calls and does not define: \<^verbatim>\<open>os.path.exists\<close>, \<^verbatim>\<open>json.loads\<close>,
  \<^verbatim>\<open>utils.read_json\<close>, \<^verbatim>\<open>utils.get_type\<close>, \<^verbatim>\<open>schema.get_param_schema\<close> and
  marshmallow's \<^verbatim>\<open>Schema.load\<close> on the two compiled schemas. They are parameters of the
  model: every function that can raise returns \<open>Inl\<close> of the error.
\<close>

record collaborators =
  path_exists :: "string \<Rightarrow> bool"
  read_json :: "string \<Rightarrow> error + json"
  json_loads :: "string \<Rightarrow> error + json"
  get_param_schema :: "json \<Rightarrow> field dict \<Rightarrow> error + (base_class \<times> field dict)"
  get_type :: "json \<Rightarrow> error + field"
  load_param_schema :: "ParamSchema schema_instance \<Rightarrow> json \<Rightarrow> error + json"
  load_validator_schema :: "ValidatorSchema schema_instance \<Rightarrow> json \<Rightarrow> error + json"

section \<open>The schema builder\<close>

text \<open>\<^verbatim>\<open>SchemaBuilder.__init__(schema_def_path, base_spec_path, field_map)\<close>.\<close>

definition SchemaBuilder_init ::
  "collaborators \<Rightarrow> string \<Rightarrow> string \<Rightarrow> field dict \<Rightarrow> error + SchemaBuilder" where
  "SchemaBuilder_init E schema_def_path base_spec_path field_map =
     (case read_json E schema_def_path of
        Inl e \<Rightarrow> Inl e
      | Inr schema_def \<Rightarrow>
          (case get_param_schema E schema_def field_map of
             Inl e \<Rightarrow> Inl e
           | Inr (bps, dv) \<Rightarrow>
               (case read_json E base_spec_path of
                  Inl e \<Rightarrow> Inl e
                | Inr spec \<Rightarrow>
                    Inr \<lparr>BaseParamSchema = bps, dim_validators = dv, base_spec = spec,
                         param_schema = None, validator_schema = None\<rparr>)))"

text \<open>
  The dictionary display \<^verbatim>\<open>{"value": fieldtype, **self.dim_validators}\<close>: the unpacked
  entries are stored after the literal ones, so an unpacked key that is already there
  overwrites its value.
\<close>

definition dict_unpack :: "'v dict \<Rightarrow> 'v dict \<Rightarrow> 'v dict" where
  "dict_unpack d unpacked = foldl (\<lambda>acc (k, v). AList.update k v acc) d unpacked"

text \<open>
  The loop of \<^verbatim>\<open>build_schemas\<close> over \<^verbatim>\<open>self.base_spec.items()\<close>, with the two
  dictionaries it fills as accumulator. An exception of \<^verbatim>\<open>get_type\<close> leaves the loop.
\<close>

fun compile_params ::
  "collaborators \<Rightarrow> SchemaBuilder \<Rightarrow> json dict \<Rightarrow>
   ValidatorItem dict \<times> IndividualParamSchema dict \<Rightarrow>
   error + (ValidatorItem dict \<times> IndividualParamSchema dict)" where
  "compile_params E self [] (validator_dict, param_dict) = Inr (validator_dict, param_dict)"
| "compile_params E self ((k, v) # items) (validator_dict, param_dict) =
     (case get_type E v of
        Inl e \<Rightarrow> Inl e
      | Inr fieldtype \<Rightarrow>
          (let classattrs = dict_unpack [(''value'', fieldtype)] (dim_validators self);
               item = py_type ''ValidatorItem'' [EmptySchema] classattrs;
               validator_dict' = AList.update k item validator_dict;
               classattrs' = [(''value'', Nested item True)];
               param_dict' =
                 AList.update k
                   (py_type ''IndividualParamSchema'' [BaseParamSchema self] classattrs')
                   param_dict
           in compile_params E self items (validator_dict', param_dict')))"

text \<open>The two top-level classes, lines 67-68 and 72-77 of the source.\<close>

definition make_ParamSchema :: "IndividualParamSchema dict \<Rightarrow> ParamSchema" where
  "make_ParamSchema param_dict =
     py_type ''ParamSchema'' [EmptySchema] (map (\<lambda>(k, v). (k, Nested v False)) param_dict)"

definition make_ValidatorSchema :: "ValidatorItem dict \<Rightarrow> ValidatorSchema" where
  "make_ValidatorSchema validator_dict =
     py_type ''ValidatorSchema'' [BaseValidatorSchema]
       (map (\<lambda>(k, v). (k, Nested (instantiate v True) False)) validator_dict)"

text \<open>
  \<^verbatim>\<open>build_schemas\<close> returns nothing and mutates the builder, so the model returns the
  outcome together with the builder as the call leaves it, also when it raises.
  \<^verbatim>\<open>self.base_spec.items()\<close> needs a dictionary. \<^verbatim>\<open>self.param_schema\<close> is assigned
  (line 69) before the baseline is loaded through it (line 70).
\<close>

definition build_schemas :: "collaborators \<Rightarrow> SchemaBuilder \<Rightarrow> (error + unit) \<times> SchemaBuilder" where
  "build_schemas E self =
     (case base_spec self of
        JObj items \<Rightarrow>
          (case compile_params E self items ([], []) of
             Inl e \<Rightarrow> (Inl e, self)
           | Inr (validator_dict, param_dict) \<Rightarrow>
               (let ps = instantiate (make_ParamSchema param_dict) False;
                    self1 = self\<lparr>param_schema := Some ps\<rparr>
                in case load_param_schema E ps (base_spec self1) of
                     Inl e \<Rightarrow> (Inl e, self1)
                   | Inr cleaned_base_spec \<Rightarrow>
                       (let vs = instantiate (make_ValidatorSchema validator_dict) False;
                            vs' = vs\<lparr>schema_context :=
                                    AList.update ''base_spec'' cleaned_base_spec (schema_context vs)\<rparr>
                        in (Inr (), self1\<lparr>validator_schema := Some vs'\<rparr>))))
      | _ \<Rightarrow> (Inl AttributeError, self))"

text \<open>
  \<^verbatim>\<open>load_params\<close>. The \<^verbatim>\<open>if\<close>/\<^verbatim>\<open>elif\<close> chain that binds \<^verbatim>\<open>params\<close> (lines 91-98)
  is \<open>params_of\<close>; the last line, \<^verbatim>\<open>self.validator_schema.load(params)\<close>, is
  \<open>validator_schema_load\<close>: reading the attribute raises \<^verbatim>\<open>AttributeError\<close> on a
  builder whose \<^verbatim>\<open>build_schemas\<close> has not assigned it.
\<close>

definition params_of :: "collaborators \<Rightarrow> json \<Rightarrow> error + json" where
  "params_of E params_or_path =
     (case params_or_path of
        JStr p \<Rightarrow> if path_exists E p then read_json E p else json_loads E p
      | JObj d \<Rightarrow> Inr (JObj d)
      | _ \<Rightarrow> Inl ValueError)"

definition validator_schema_load :: "collaborators \<Rightarrow> SchemaBuilder \<Rightarrow> json \<Rightarrow> error + json" where
  "validator_schema_load E self params =
     (case validator_schema self of
        None \<Rightarrow> Inl AttributeError
      | Some vs \<Rightarrow> load_validator_schema E vs params)"

definition load_params :: "collaborators \<Rightarrow> SchemaBuilder \<Rightarrow> json \<Rightarrow> error + json" where
  "load_params E self params_or_path =
     (case params_of E params_or_path of
        Inl e \<Rightarrow> Inl e
      | Inr params \<Rightarrow> validator_schema_load E self params)"

section \<open>Type resolution and the validation engine\<close>

text \<open>
  Modelled from the spec: \<^verbatim>\<open>utils.get_type\<close> is not under src/. Section 4.1: a plain
  scalar gives the type of its runtime representation; a structured entry with a
  \<open>value\<close> sub-field gives the type of that sub-field; a sequence gives the type its
  entries agree on; an empty or ambiguous shape is a \<open>TypeResolutionError\<close>. A JSON
  document holds no dates, so \<open>Date\<close> is never inferred.
\<close>

fun agree :: "semantic_type option list \<Rightarrow> semantic_type option" where
  "agree [] = None"
| "agree (t # ts) = (if list_all (\<lambda>u. u = t) ts then t else None)"

fun resolve :: "json \<Rightarrow> semantic_type option"
  and resolve_value :: "(string \<times> json) list \<Rightarrow> semantic_type option"
  and resolve_each :: "json list \<Rightarrow> semantic_type option list" where
  "resolve JNull = None"
| "resolve (JBool b) = Some Boolean"
| "resolve (JNum n) = Some Numeric"
| "resolve (JStr s) = Some String"
| "resolve (JArr es) = agree (resolve_each es)"
| "resolve (JObj fs) = resolve_value fs"
| "resolve_value [] = None"
| "resolve_value ((f, x) # fs) = (if f = ''value'' then resolve x else resolve_value fs)"
| "resolve_each [] = []"
| "resolve_each (e # es) = resolve e # resolve_each es"

definition resolve_type :: "json \<Rightarrow> error + field" where
  "resolve_type raw =
     (case resolve raw of None \<Rightarrow> Inl TypeResolutionError | Some t \<Rightarrow> Inr (TypeField t))"

text \<open>
  Modelled from the spec: the field validation primitives are a library outside the core
  (section 1), so the engine takes them as a parameter: given the bound context, a field
  validator, the entry under validation and the value of one of its fields, the library
  accepts the value (returning its normalized form), rejects it, or cannot resolve a
  reference into the cleaned baseline.
\<close>

datatype verdict = Accepted json | Rejected | Unresolved

type_synonym field_validators = "json dict \<Rightarrow> field \<Rightarrow> json dict \<Rightarrow> json \<Rightarrow> verdict"

text \<open>
  Modelled from the spec: \<^verbatim>\<open>Schema.load\<close> of the schema classes of \<^verbatim>\<open>paramtools.schema\<close>
  is not under src/. Section 4.3, step 3: the value-entry validator checks one record,
  the value against the type validator and each present label against its dimension
  validator. Sections 4.5 and 7: every violation is collected, none stops the run.
\<close>

definition field_violations ::
  "field_validators \<Rightarrow> json dict \<Rightarrow> ValidatorItem \<Rightarrow> string \<Rightarrow> nat \<Rightarrow> json dict \<Rightarrow>
   string \<times> json \<Rightarrow> violation list" where
  "field_violations P ctx item k i entry fx =
     (case map_of (classattrs item) (fst fx) of
        None \<Rightarrow> [EntryViolation k i (fst fx)]
      | Some fld \<Rightarrow>
          (case P ctx fld entry (snd fx) of
             Accepted y \<Rightarrow> []
           | Rejected \<Rightarrow> [EntryViolation k i (fst fx)]
           | Unresolved \<Rightarrow> [ContextResolutionError k i (fst fx)]))"

definition entry_violations ::
  "field_validators \<Rightarrow> json dict \<Rightarrow> ValidatorItem \<Rightarrow> string \<Rightarrow> nat \<Rightarrow> json \<Rightarrow> violation list" where
  "entry_violations P ctx item k i e =
     (case e of
        JObj fs \<Rightarrow> concat (map (field_violations P ctx item k i fs) fs)
      | _ \<Rightarrow> [EntryViolation k i ''_schema''])"

text \<open>A fragment wrapped as "many" takes a sequence of entries, otherwise one entry.\<close>

definition wrapped_violations ::
  "field_validators \<Rightarrow> json dict \<Rightarrow> ValidatorItem \<Rightarrow> bool \<Rightarrow> string \<Rightarrow> json \<Rightarrow> violation list" where
  "wrapped_violations P ctx item many k v =
     (if many then
        (case v of
           JArr es \<Rightarrow> concat (map (\<lambda>ie. entry_violations P ctx item k (fst ie) (snd ie)) (enumerate 0 es))
         | _ \<Rightarrow> [InvalidInput k])
      else entry_violations P ctx item k 0 v)"

text \<open>
  Normalization (sections 3 and 4.5): each field takes the form its validator returns, and
  the fields of an entry are put in the order of the fragment (value first, then the
  dimensions in the order of the registry).
\<close>

definition clean_entry :: "field_validators \<Rightarrow> json dict \<Rightarrow> ValidatorItem \<Rightarrow> json \<Rightarrow> json" where
  "clean_entry P ctx item e =
     (case e of
        JObj fs \<Rightarrow>
          JObj (List.map_filter
                  (\<lambda>ffld. case map_of fs (fst ffld) of
                             None \<Rightarrow> None
                           | Some x \<Rightarrow>
                               Some (fst ffld,
                                     case P ctx (snd ffld) fs x of Accepted y \<Rightarrow> y | _ \<Rightarrow> x))
                  (classattrs item))
      | _ \<Rightarrow> e)"

definition clean_wrapped ::
  "field_validators \<Rightarrow> json dict \<Rightarrow> ValidatorItem \<Rightarrow> bool \<Rightarrow> json \<Rightarrow> json" where
  "clean_wrapped P ctx item many v =
     (if many then (case v of JArr es \<Rightarrow> JArr (map (clean_entry P ctx item) es) | _ \<Rightarrow> v)
      else clean_entry P ctx item v)"

text \<open>
  Modelled from the spec: the revision schema (sections 4.4 and 4.5). Each top-level key
  is dispatched to its fragment; a name with no fragment is an \<open>UnknownParameterError\<close>.
  The context bound on the schema is what the validators resolve references against. A
  nested schema takes a sequence when the field or the nested instance says \<open>many\<close>.
\<close>

definition revision_violations ::
  "field_validators \<Rightarrow> ValidatorSchema schema_instance \<Rightarrow> string \<times> json \<Rightarrow> violation list" where
  "revision_violations P vs kv =
     (case map_of (classattrs (inst_class vs)) (fst kv) of
        None \<Rightarrow> [UnknownParameterError (fst kv)]
      | Some n \<Rightarrow>
          wrapped_violations P (schema_context vs) (inst_class (nested_schema n))
            (nested_many n \<or> inst_many (nested_schema n)) (fst kv) (snd kv))"

definition clean_revision ::
  "field_validators \<Rightarrow> ValidatorSchema schema_instance \<Rightarrow> string \<times> json \<Rightarrow> string \<times> json" where
  "clean_revision P vs kv =
     (case map_of (classattrs (inst_class vs)) (fst kv) of
        None \<Rightarrow> kv
      | Some n \<Rightarrow>
          (fst kv,
           clean_wrapped P (schema_context vs) (inst_class (nested_schema n))
             (nested_many n \<or> inst_many (nested_schema n)) (snd kv)))"

definition validate_revision ::
  "field_validators \<Rightarrow> ValidatorSchema schema_instance \<Rightarrow> json \<Rightarrow> error + json" where
  "validate_revision P vs raw =
     (case raw of
        JObj d \<Rightarrow>
          (let errs = concat (map (revision_violations P vs) d)
           in if errs = [] then Inr (JObj (map (clean_revision P vs) d))
              else Inl (ValidationError errs))
      | _ \<Rightarrow> Inl (ValidationError [InvalidInput ''_schema'']))"

text \<open>
  Modelled from the spec: the baseline schema (sections 4.4 and 4.5). It is self-contained:
  the validators see an empty context. The fragment of a parameter is the class
  \<^verbatim>\<open>IndividualParamSchema\<close>, whose own field \<open>value\<close> nests the value-entry validator
  and whose other fields are those of its base.
\<close>

fun base_fields :: "base_class list \<Rightarrow> field dict" where
  "base_fields [] = []"
| "base_fields (ParamBase fs # bs) = fs @ base_fields bs"
| "base_fields (b # bs) = base_fields bs"

definition individual_violations ::
  "field_validators \<Rightarrow> IndividualParamSchema \<Rightarrow> string \<Rightarrow> json dict \<Rightarrow> string \<times> json \<Rightarrow>
   violation list" where
  "individual_violations P ind k fs fx =
     (case map_of (classattrs ind) (fst fx) of
        Some m \<Rightarrow> wrapped_violations P [] (nested_schema m) (nested_many m) k (snd fx)
      | None \<Rightarrow>
          (case map_of (base_fields (cls_bases ind)) (fst fx) of
             None \<Rightarrow> [EntryViolation k 0 (fst fx)]
           | Some fld \<Rightarrow>
               (case P [] fld fs (snd fx) of
                  Accepted y \<Rightarrow> []
                | _ \<Rightarrow> [EntryViolation k 0 (fst fx)])))"

definition baseline_violations ::
  "field_validators \<Rightarrow> ParamSchema schema_instance \<Rightarrow> string \<times> json \<Rightarrow> violation list" where
  "baseline_violations P ps kv =
     (case map_of (classattrs (inst_class ps)) (fst kv) of
        None \<Rightarrow> [UnknownParameterError (fst kv)]
      | Some n \<Rightarrow>
          (case snd kv of
             JObj fs \<Rightarrow> concat (map (individual_violations P (nested_schema n) (fst kv) fs) fs)
           | _ \<Rightarrow> [InvalidInput (fst kv)]))"

definition clean_individual ::
  "field_validators \<Rightarrow> IndividualParamSchema \<Rightarrow> json dict \<Rightarrow> string \<times> json \<Rightarrow> string \<times> json" where
  "clean_individual P ind fs fx =
     (case map_of (classattrs ind) (fst fx) of
        Some m \<Rightarrow> (fst fx, clean_wrapped P [] (nested_schema m) (nested_many m) (snd fx))
      | None \<Rightarrow>
          (case map_of (base_fields (cls_bases ind)) (fst fx) of
             None \<Rightarrow> fx
           | Some fld \<Rightarrow>
               (fst fx, case P [] fld fs (snd fx) of Accepted y \<Rightarrow> y | _ \<Rightarrow> snd fx)))"

definition clean_baseline ::
  "field_validators \<Rightarrow> ParamSchema schema_instance \<Rightarrow> string \<times> json \<Rightarrow> string \<times> json" where
  "clean_baseline P ps kv =
     (case map_of (classattrs (inst_class ps)) (fst kv) of
        None \<Rightarrow> kv
      | Some n \<Rightarrow>
          (case snd kv of
             JObj fs \<Rightarrow> (fst kv, JObj (map (clean_individual P (nested_schema n) fs) fs))
           | _ \<Rightarrow> kv))"

definition validate_baseline ::
  "field_validators \<Rightarrow> ParamSchema schema_instance \<Rightarrow> json \<Rightarrow> error + json" where
  "validate_baseline P ps raw =
     (case raw of
        JObj d \<Rightarrow>
          (let errs = concat (map (baseline_violations P ps) d)
           in if errs = [] then Inr (JObj (map (clean_baseline P ps) d))
              else Inl (ValidationError errs))
      | _ \<Rightarrow> Inl (ValidationError [InvalidInput ''_schema'']))"

section \<open>A library of field validators and a file system to run the model on\<close>

text \<open>
  Modelled from the spec: a field validation library in the sense of section 4.2. A type
  validator accepts the values of its runtime representation. An enumerated set accepts
  its members. An ordered range accepts the numbers between its bounds; a bound that
  names a parameter is the value of that parameter in the bound cleaned baseline, at the
  entry with the same label assignment, else at the entry with no label; a missing target
  cannot be resolved. With no baseline bound (baseline validation is self-contained) such
  a bound is not enforced.
\<close>

fun type_check :: "semantic_type \<Rightarrow> json \<Rightarrow> verdict" where
  "type_check Numeric (JNum n) = Accepted (JNum n)"
| "type_check Boolean (JBool b) = Accepted (JBool b)"
| "type_check String (JStr s) = Accepted (JStr s)"
| "type_check Date (JStr s) = Accepted (JStr s)"
| "type_check t x = Rejected"

definition labels_of :: "json dict \<Rightarrow> json dict" where
  "labels_of entry = filter (\<lambda>fx. fst fx \<noteq> ''value'') entry"

definition same_labels :: "json dict \<Rightarrow> json dict \<Rightarrow> bool" where
  "same_labels a b =
     (list_all (\<lambda>l. l \<in> set (labels_of b)) (labels_of a) \<and>
      list_all (\<lambda>l. l \<in> set (labels_of a)) (labels_of b))"

fun entry_fields :: "json \<Rightarrow> json dict" where
  "entry_fields (JObj fs) = fs"
| "entry_fields e = []"

fun entries_of :: "json \<Rightarrow> json list" where
  "entries_of (JArr es) = es"
| "entries_of (JObj fs) = (case map_of fs ''value'' of Some (JArr es) \<Rightarrow> es | _ \<Rightarrow> [])"
| "entries_of v = []"

definition numeric_value :: "json \<Rightarrow> int option" where
  "numeric_value e = (case map_of (entry_fields e) ''value'' of Some (JNum n) \<Rightarrow> Some n | _ \<Rightarrow> None)"

definition referenced_value :: "json \<Rightarrow> string \<Rightarrow> json dict \<Rightarrow> int option" where
  "referenced_value base p entry =
     (case map_of (entry_fields base) p of
        None \<Rightarrow> None
      | Some v \<Rightarrow>
          (case find (\<lambda>e. same_labels (entry_fields e) entry) (entries_of v) of
             Some e \<Rightarrow> numeric_value e
           | None \<Rightarrow>
               (case find (\<lambda>e. labels_of (entry_fields e) = []) (entries_of v) of
                  Some e \<Rightarrow> numeric_value e
                | None \<Rightarrow> None)))"

datatype resolved = NoBound | Bound int | Missing

definition bound_value :: "json dict \<Rightarrow> json dict \<Rightarrow> bound \<Rightarrow> resolved" where
  "bound_value ctx entry b =
     (case b of
        Fixed n \<Rightarrow> Bound n
      | ValueOf p \<Rightarrow>
          (case map_of ctx ''base_spec'' of
             None \<Rightarrow> NoBound
           | Some base \<Rightarrow>
               (case referenced_value base p entry of None \<Rightarrow> Missing | Some n \<Rightarrow> Bound n)))"

definition range_check :: "resolved \<Rightarrow> resolved \<Rightarrow> json \<Rightarrow> verdict" where
  "range_check lo hi x =
     (case x of
        JNum n \<Rightarrow>
          (if lo = Missing \<or> hi = Missing then Unresolved
           else if (case lo of Bound a \<Rightarrow> a \<le> n | _ \<Rightarrow> True) \<and>
                   (case hi of Bound b \<Rightarrow> n \<le> b | _ \<Rightarrow> True)
                then Accepted x else Rejected)
      | _ \<Rightarrow> Rejected)"

definition library_check :: field_validators where
  "library_check ctx fld entry x =
     (case fld of
        TypeField t \<Rightarrow> type_check t x
      | DimensionField (EnumeratedSet ls) \<Rightarrow> if x \<in> set ls then Accepted x else Rejected
      | DimensionField (OrderedRange lo hi) \<Rightarrow>
          range_check (bound_value ctx entry lo) (bound_value ctx entry hi) x)"

text \<open>
  A small file system and the collaborators over it: \<^verbatim>\<open>read_json\<close> returns the document
  stored under a path, \<^verbatim>\<open>json.loads\<close> knows the texts of a table, \<^verbatim>\<open>get_param_schema\<close>
  returns the registry stored for a schema definition, and the two schemas load with the
  engine above.
\<close>

definition collaborators_over ::
  "json dict \<Rightarrow> json dict \<Rightarrow> (json \<times> base_class \<times> field dict) list \<Rightarrow> collaborators" where
  "collaborators_over files texts registries =
     \<lparr>path_exists = (\<lambda>p. map_of files p \<noteq> None),
      read_json = (\<lambda>p. case map_of files p of None \<Rightarrow> Inl OSError | Some doc \<Rightarrow> Inr doc),
      json_loads = (\<lambda>s. case map_of texts s of None \<Rightarrow> Inl JSONDecodeError | Some doc \<Rightarrow> Inr doc),
      get_param_schema =
        (\<lambda>schema_def field_map.
           case map_of registries schema_def of
             None \<Rightarrow> Inl DimensionDefinitionError
           | Some r \<Rightarrow> Inr r),
      get_type = resolve_type,
      load_param_schema = validate_baseline library_check,
      load_validator_schema = validate_revision library_check\<rparr>"

text \<open>
  One dimension, \<open>year\<close>, from 2000 up to the value of the parameter \<open>horizon\<close>; a
  baseline of two parameters; a second baseline whose label is out of range; a third that
  declares its parameter as a scalar.
\<close>

definition year_dims :: "field dict" where
  "year_dims = [(''year'', DimensionField (OrderedRange (Fixed 2000) (ValueOf ''horizon'')))]"

definition baseline_doc :: json where
  "baseline_doc =
     JObj [(''horizon'', JObj [(''value'', JArr [JObj [(''value'', JNum 2030)]])]),
           (''rate'', JObj [(''value'', JArr [JObj [(''value'', JNum 5), (''year'', JNum 2020)]])])]"

definition early_doc :: json where
  "early_doc =
     JObj [(''rate'', JObj [(''value'', JArr [JObj [(''value'', JNum 5), (''year'', JNum 1990)]])])]"

definition scalar_doc :: json where
  "scalar_doc = JObj [(''rate'', JNum 5)]"

definition revision_doc :: json where
  "revision_doc = JObj [(''rate'', JArr [JObj [(''value'', JNum 7), (''year'', JNum 2025)]])]"

definition E0 :: collaborators where
  "E0 = collaborators_over
          [(''schema.json'', JObj [(''dimensions'', JObj [(''year'', JStr ''range'')])]),
           (''baseline.json'', baseline_doc),
           (''early.json'', early_doc),
           (''scalar.json'', scalar_doc),
           (''revision.json'', revision_doc)]
          [(''{}'', JObj [])]
          [(JObj [(''dimensions'', JObj [(''year'', JStr ''range'')])], ParamBase [], year_dims)]"

definition builder_of :: "json \<Rightarrow> field dict \<Rightarrow> SchemaBuilder" where
  "builder_of doc dims =
     \<lparr>BaseParamSchema = ParamBase [], dim_validators = dims, base_spec = doc,
      param_schema = None, validator_schema = None\<rparr>"

section \<open>What a builder exposes\<close>

text \<open>
  The two classes one pass of the loop creates for a parameter whose resolved type is
  \<open>fieldtype\<close> (lines 57-60 and 62-65), named so that the properties can speak of them.
\<close>

definition item_for :: "SchemaBuilder \<Rightarrow> field \<Rightarrow> ValidatorItem" where
  "item_for self fieldtype =
     py_type ''ValidatorItem'' [EmptySchema]
       (dict_unpack [(''value'', fieldtype)] (dim_validators self))"

definition individual_for :: "SchemaBuilder \<Rightarrow> field \<Rightarrow> IndividualParamSchema" where
  "individual_for self fieldtype =
     py_type ''IndividualParamSchema'' [BaseParamSchema self]
       [(''value'', Nested (item_for self fieldtype) True)]"

text \<open>The compilation of all parameters, as \<^verbatim>\<open>build_schemas\<close> starts it.\<close>

definition compile_all ::
  "collaborators \<Rightarrow> SchemaBuilder \<Rightarrow> error + (ValidatorItem dict \<times> IndividualParamSchema dict)" where
  "compile_all E self =
     (case base_spec self of
        JObj items \<Rightarrow> compile_params E self items ([], [])
      | _ \<Rightarrow> Inl AttributeError)"

text \<open>
  The fragment of parameter \<open>k\<close> in the baseline schema and in the revision schema of a
  builder, the value-entry validator inside each, and whether each takes a sequence of
  entries (marshmallow nests "many" when the field or the nested instance says so).
\<close>

definition baseline_fragment :: "SchemaBuilder \<Rightarrow> string \<Rightarrow> IndividualParamSchema nested option" where
  "baseline_fragment self k =
     Option.bind (param_schema self) (\<lambda>ps. map_of (classattrs (inst_class ps)) k)"

definition revision_fragment ::
  "SchemaBuilder \<Rightarrow> string \<Rightarrow> ValidatorItem schema_instance nested option" where
  "revision_fragment self k =
     Option.bind (validator_schema self) (\<lambda>vs. map_of (classattrs (inst_class vs)) k)"

definition baseline_value_field :: "SchemaBuilder \<Rightarrow> string \<Rightarrow> ValidatorItem nested option" where
  "baseline_value_field self k =
     Option.bind (baseline_fragment self k) (\<lambda>n. map_of (classattrs (nested_schema n)) ''value'')"

definition baseline_item :: "SchemaBuilder \<Rightarrow> string \<Rightarrow> ValidatorItem option" where
  "baseline_item self k = map_option nested_schema (baseline_value_field self k)"

definition revision_item :: "SchemaBuilder \<Rightarrow> string \<Rightarrow> ValidatorItem option" where
  "revision_item self k = map_option (\<lambda>n. inst_class (nested_schema n)) (revision_fragment self k)"

definition baseline_many :: "SchemaBuilder \<Rightarrow> string \<Rightarrow> bool option" where
  "baseline_many self k = map_option nested_many (baseline_value_field self k)"

definition revision_many :: "SchemaBuilder \<Rightarrow> string \<Rightarrow> bool option" where
  "revision_many self k =
     map_option (\<lambda>n. nested_many n \<or> inst_many (nested_schema n)) (revision_fragment self k)"

text \<open>
  The builders a program can hold: one that \<^verbatim>\<open>__init__\<close> returned, and any builder
  after a call of \<^verbatim>\<open>build_schemas\<close>, whether the call returned or raised.
  \<^verbatim>\<open>load_params\<close> assigns no attribute.
\<close>

inductive reachable :: "collaborators \<Rightarrow> SchemaBuilder \<Rightarrow> bool" for E :: collaborators where
  created: "SchemaBuilder_init E schema_def_path base_spec_path field_map = Inr self \<Longrightarrow>
            reachable E self"
| built: "reachable E self \<Longrightarrow> reachable E (snd (build_schemas E self))"

text \<open>
  The validator schema as \<^verbatim>\<open>build_schemas\<close> leaves it (lines 78-79): a fresh instance
  whose context holds the cleaned baseline under \<open>base_spec\<close>.
\<close>

definition bound_to :: "ValidatorItem dict \<Rightarrow> json \<Rightarrow> ValidatorSchema schema_instance" where
  "bound_to validator_dict cleaned =
     (instantiate (make_ValidatorSchema validator_dict) False)
       \<lparr>schema_context := [(''base_spec'', cleaned)]\<rparr>"

text \<open>The builder over the example baseline, after \<^verbatim>\<open>build_schemas\<close>.\<close>

definition built0 :: SchemaBuilder where
  "built0 = snd (build_schemas E0 (builder_of baseline_doc year_dims))"

text \<open>
  A registry whose only dimension is named \<open>value\<close>, with a baseline for it, and a
  baseline whose horizon is 2020.
\<close>

definition value_dims :: "field dict" where
  "value_dims = [(''value'', DimensionField (EnumeratedSet [JNum 1]))]"

definition flag_doc :: json where
  "flag_doc = JObj [(''flag'', JObj [(''value'', JArr [JObj [(''value'', JNum 1)]])])]"

definition short_doc :: json where
  "short_doc =
     JObj [(''horizon'', JObj [(''value'', JArr [JObj [(''value'', JNum 2020)]])]),
           (''rate'', JObj [(''value'', JArr [JObj [(''value'', JNum 5), (''year'', JNum 2020)]])])]"

text \<open>A baseline whose parameter has no entry to infer a type from.\<close>

definition empty_doc :: json where
  "empty_doc = JObj [(''rate'', JObj [(''value'', JArr [])])]"

text \<open>
  The cleaned baseline a builder holds: what its validator schema's context binds under
  \<open>base_spec\<close>.
\<close>

definition cleaned_baseline :: "SchemaBuilder \<Rightarrow> json option" where
  "cleaned_baseline self =
     Option.bind (validator_schema self) (\<lambda>vs. map_of (schema_context vs) ''base_spec'')"



text \<open>
  The invariant of the reachable builders: a validator schema, once assigned, is the one
  compiled from the builder's own baseline, with the cleaned baseline bound in its context.
\<close>

definition bound_invariant :: "collaborators \<Rightarrow> SchemaBuilder \<Rightarrow> bool" where
  "bound_invariant E self \<longleftrightarrow>
     (\<forall>vs. validator_schema self = Some vs \<longrightarrow>
        (\<exists>vd pd cleaned. compile_all E self = Inr (vd, pd) \<and>
           param_schema self = Some (instantiate (make_ParamSchema pd) False) \<and>
           load_param_schema E (instantiate (make_ParamSchema pd) False) (base_spec self) = Inr cleaned \<and>
           vs = bound_to vd cleaned))"

text \<open>
  A revision with three violations across two parameters (a value of the wrong type and a
  label out of range for \<open>rate\<close>, a value of the wrong type for \<open>horizon\<close>), and one
  that names a parameter the baseline does not have.
\<close>

definition three_doc :: json where
  "three_doc =
     JObj [(''rate'', JArr [JObj [(''value'', JStr ''x''), (''year'', JNum 1990)]]),
           (''horizon'', JArr [JObj [(''value'', JBool True)]])]"

definition bogus_doc :: json where
  "bogus_doc = JObj [(''rate'', JArr [JObj [(''value'', JNum 7)]]), (''bogus'', JArr [])]"

section \<open>Properties\<close>

lemma update_absent: "k \<notin> fst ` set al \<Longrightarrow> AList.update k v al = al @ [(k, v)]"
  by (induction al) auto

lemma set_update_subset: "set (AList.update k v al) \<subseteq> insert (k, v) (set al)"
  by (induction al) auto

lemma dict_unpack_keys: "fst ` set (dict_unpack d u) = fst ` set d \<union> fst ` set u"
  unfolding dict_unpack_def
proof (induction u arbitrary: d)
  case Nil
  then show ?case by simp
next
  case (Cons a u)
  obtain k v where a: "a = (k, v)" by (cases a)
  have "fst ` set (foldl (\<lambda>acc (k, v). AList.update k v acc) (AList.update k v d) u) =
        fst ` set (AList.update k v d) \<union> fst ` set u"
    by (rule Cons.IH)
  then show ?case by (simp add: a AList.dom_update Un_assoc)
qed

lemma dict_unpack_distinct:
  "distinct (map fst d) \<Longrightarrow> distinct (map fst (dict_unpack d u))"
  unfolding dict_unpack_def
  by (induction u arbitrary: d) (auto simp: AList.distinct_update)

lemma dict_unpack_append:
  "distinct (map fst u) \<Longrightarrow> fst ` set d \<inter> fst ` set u = {} \<Longrightarrow> dict_unpack d u = d @ u"
  unfolding dict_unpack_def
proof (induction u arbitrary: d)
  case Nil
  then show ?case by simp
next
  case (Cons a u)
  obtain k v where a: "a = (k, v)" by (cases a)
  from Cons.prems have k: "k \<notin> fst ` set d" by (auto simp: a)
  have "fst ` set (d @ [(k, v)]) \<inter> fst ` set u = {}"
    using Cons.prems by (auto simp: a)
  moreover have "distinct (map fst u)" using Cons.prems by simp
  ultimately have "foldl (\<lambda>acc (k, v). AList.update k v acc) (d @ [(k, v)]) u = (d @ [(k, v)]) @ u"
    by (intro Cons.IH)
  then show ?case by (simp add: a update_absent[OF k])
qed

lemma dict_unpack_lookup:
  "distinct (map fst u) \<Longrightarrow>
   map_of (dict_unpack d u) k = (case map_of u k of Some f \<Rightarrow> Some f | None \<Rightarrow> map_of d k)"
  unfolding dict_unpack_def
proof (induction u arbitrary: d)
  case Nil
  then show ?case by simp
next
  case (Cons a u)
  obtain k0 v0 where a: "a = (k0, v0)" by (cases a)
  from Cons.prems have "map_of u k0 = None"
    by (auto simp: a map_of_eq_None_iff)
  with Cons.prems Cons.IH[of "AList.update k0 v0 d"] show ?case
    by (auto simp: a AList.update_conv' split: option.splits)
qed

lemma compile_params_step:
  "compile_params E self ((k, v) # items) (vd, pd) =
     (case get_type E v of
        Inl e \<Rightarrow> Inl e
      | Inr ft \<Rightarrow>
          compile_params E self items
            (AList.update k (item_for self ft) vd, AList.update k (individual_for self ft) pd))"
  by (simp add: item_for_def individual_for_def Let_def split: sum.splits)

lemma compile_params_distinct:
  "compile_params E self items (vd, pd) = Inr (vd', pd') \<Longrightarrow>
   distinct (map fst vd) \<Longrightarrow> distinct (map fst pd) \<Longrightarrow>
   distinct (map fst vd') \<and> distinct (map fst pd')"
proof (induction items arbitrary: vd pd)
  case Nil
  then show ?case by simp
next
  case (Cons kv items)
  obtain k v where kv: "kv = (k, v)" by (cases kv)
  from Cons.prems(1) obtain ft where ft: "get_type E v = Inr ft"
    and rest: "compile_params E self items
       (AList.update k (item_for self ft) vd, AList.update k (individual_for self ft) pd)
       = Inr (vd', pd')"
    unfolding kv compile_params_step by (auto split: sum.splits)
  show ?case
    by (rule Cons.IH[OF rest]) (simp_all add: AList.distinct_update Cons.prems)
qed

lemma compile_params_other:
  "compile_params E self items (vd, pd) = Inr (vd', pd') \<Longrightarrow> k \<notin> fst ` set items \<Longrightarrow>
   map_of vd' k = map_of vd k \<and> map_of pd' k = map_of pd k"
proof (induction items arbitrary: vd pd)
  case Nil
  then show ?case by simp
next
  case (Cons kv items)
  obtain k0 v where kv: "kv = (k0, v)" by (cases kv)
  from Cons.prems(1) obtain ft where ft: "get_type E v = Inr ft"
    and rest: "compile_params E self items
       (AList.update k0 (item_for self ft) vd, AList.update k0 (individual_for self ft) pd)
       = Inr (vd', pd')"
    unfolding kv compile_params_step by (auto split: sum.splits)
  from Cons.prems(2) have "k \<noteq> k0" "k \<notin> fst ` set items" by (auto simp: kv)
  with Cons.IH[OF rest] show ?case by (simp add: AList.update_conv')
qed

lemma compile_params_entry:
  "compile_params E self items (vd, pd) = Inr (vd', pd') \<Longrightarrow> distinct (map fst items) \<Longrightarrow>
   (k, v) \<in> set items \<Longrightarrow>
   \<exists>ft. get_type E v = Inr ft \<and> map_of vd' k = Some (item_for self ft) \<and>
        map_of pd' k = Some (individual_for self ft)"
proof (induction items arbitrary: vd pd)
  case Nil
  then show ?case by simp
next
  case (Cons kv items)
  obtain k0 v0 where kv: "kv = (k0, v0)" by (cases kv)
  from Cons.prems(1) obtain ft where ft: "get_type E v0 = Inr ft"
    and rest: "compile_params E self items
       (AList.update k0 (item_for self ft) vd, AList.update k0 (individual_for self ft) pd)
       = Inr (vd', pd')"
    unfolding kv compile_params_step by (auto split: sum.splits)
  show ?case
  proof (cases "(k, v) = (k0, v0)")
    case True
    from Cons.prems(2) have "k0 \<notin> fst ` set items" by (auto simp: kv)
    from compile_params_other[OF rest this] True ft show ?thesis
      by (auto simp: AList.update_conv')
  next
    case False
    with Cons.prems have "(k, v) \<in> set items" "distinct (map fst items)" by (auto simp: kv)
    with Cons.IH[OF rest] show ?thesis by blast
  qed
qed

lemma compile_params_shape:
  "compile_params E self items (vd, pd) = Inr (vd', pd') \<Longrightarrow>
   list_all (\<lambda>x. \<exists>ft. snd x = item_for self ft) vd \<Longrightarrow>
   list_all (\<lambda>x. \<exists>ft. snd x = individual_for self ft) pd \<Longrightarrow>
   list_all (\<lambda>x. \<exists>ft. snd x = item_for self ft) vd' \<and>
   list_all (\<lambda>x. \<exists>ft. snd x = individual_for self ft) pd'"
proof (induction items arbitrary: vd pd)
  case Nil
  then show ?case by simp
next
  case (Cons kv items)
  obtain k0 v0 where kv: "kv = (k0, v0)" by (cases kv)
  from Cons.prems(1) obtain ft where ft: "get_type E v0 = Inr ft"
    and rest: "compile_params E self items
       (AList.update k0 (item_for self ft) vd, AList.update k0 (individual_for self ft) pd)
       = Inr (vd', pd')"
    unfolding kv compile_params_step by (auto split: sum.splits)
  have "list_all (\<lambda>x. \<exists>ft. snd x = item_for self ft) (AList.update k0 (item_for self ft) vd)"
    using Cons.prems(2) set_update_subset[of k0 "item_for self ft" vd]
    unfolding list_all_iff by fastforce
  moreover have "list_all (\<lambda>x. \<exists>ft. snd x = individual_for self ft)
      (AList.update k0 (individual_for self ft) pd)"
    using Cons.prems(3) set_update_subset[of k0 "individual_for self ft" pd]
    unfolding list_all_iff by fastforce
  ultimately show ?case by (rule Cons.IH[OF rest])
qed

lemma compile_params_cong:
  "dim_validators a = dim_validators b \<Longrightarrow> BaseParamSchema a = BaseParamSchema b \<Longrightarrow>
   compile_params E a items acc = compile_params E b items acc"
  by (induction E a items acc rule: compile_params.induct) (auto split: sum.splits)


lemma compile_params_keys:
  "compile_params E self items (vd, pd) = Inr (vd', pd') \<Longrightarrow>
     fst ` set vd' = fst ` set vd \<union> fst ` set items \<and>
     fst ` set pd' = fst ` set pd \<union> fst ` set items"
proof (induction items arbitrary: vd pd)
  case Nil
  then show ?case by simp
next
  case (Cons kv items)
  obtain k v where kv: "kv = (k, v)" by (cases kv)
  from Cons.prems obtain ft where
    rest: "compile_params E self items
       (AList.update k (item_for self ft) vd, AList.update k (individual_for self ft) pd)
       = Inr (vd', pd')"
    unfolding kv compile_params_step by (auto split: sum.splits)
  from Cons.IH [OF rest] show ?case
    by (auto simp: kv AList.dom_update)
qed

lemma build_schemas_Inr:
  assumes "build_schemas E self = (Inr (), self')"
  obtains items vd pd cleaned where
    "base_spec self = JObj items"
    "compile_params E self items ([], []) = Inr (vd, pd)"
    "load_param_schema E (instantiate (make_ParamSchema pd) False) (base_spec self) = Inr cleaned"
    "self' = self\<lparr>param_schema := Some (instantiate (make_ParamSchema pd) False),
                  validator_schema := Some (bound_to vd cleaned)\<rparr>"
  using assms unfolding build_schemas_def bound_to_def
  by (auto simp: Let_def instantiate_def split: json.splits sum.splits prod.splits)

lemma build_schemas_Inl:
  assumes "build_schemas E self = (Inl e, self')"
  shows "(compile_all E self = Inl e \<and> self' = self) \<or>
         (\<exists>vd pd. compile_all E self = Inr (vd, pd) \<and>
            load_param_schema E (instantiate (make_ParamSchema pd) False) (base_spec self) = Inl e \<and>
            self' = self\<lparr>param_schema := Some (instantiate (make_ParamSchema pd) False)\<rparr>)"
  using assms unfolding build_schemas_def compile_all_def
  by (auto simp: Let_def split: json.splits sum.splits prod.splits)

lemma keys_map_snd: "map fst (map (\<lambda>(k, v). (k, f v)) xs) = map fst xs"
  by (induction xs) auto

lemma lookup_map_snd: "map_of (map (\<lambda>(k, v). (k, f v)) xs) k = map_option f (map_of xs k)"
  by (induction xs) auto

lemma make_ParamSchema_keys: "map fst (classattrs (make_ParamSchema pd)) = map fst pd"
  by (simp add: make_ParamSchema_def py_type_def keys_map_snd del: map_map)

lemma make_ValidatorSchema_keys: "map fst (classattrs (make_ValidatorSchema vd)) = map fst vd"
  by (simp add: make_ValidatorSchema_def py_type_def keys_map_snd del: map_map)

lemma make_ParamSchema_lookup:
  "map_of (classattrs (make_ParamSchema pd)) k = map_option (\<lambda>v. Nested v False) (map_of pd k)"
  by (simp add: make_ParamSchema_def py_type_def lookup_map_snd)

lemma make_ValidatorSchema_lookup:
  "map_of (classattrs (make_ValidatorSchema vd)) k =
     map_option (\<lambda>v. Nested (instantiate v True) False) (map_of vd k)"
  by (simp add: make_ValidatorSchema_def py_type_def lookup_map_snd)

lemma bound_to_simps:
  "inst_class (bound_to vd cleaned) = make_ValidatorSchema vd"
  "inst_many (bound_to vd cleaned) = False"
  "schema_context (bound_to vd cleaned) = [(''base_spec'', cleaned)]"
  by (simp_all add: bound_to_def instantiate_def)

lemma instantiate_simps:
  "inst_class (instantiate c m) = c"
  "inst_many (instantiate c m) = m"
  "schema_context (instantiate c m) = []"
  by (simp_all add: instantiate_def)

lemma built0_ok: "build_schemas E0 (builder_of baseline_doc year_dims) = (Inr (), built0)"
  unfolding built0_def by code_simp

subsection \<open>One fragment per parameter\<close>

text \<open>
  C6: when \<^verbatim>\<open>build_schemas\<close> returns, the baseline schema and the revision schema each
  hold exactly one fragment for every parameter name of the baseline specification, keyed
  by that name, and none for any other name: the keys of each class are distinct and are
  the names of the baseline specification. (A parameter whose type cannot be resolved
  makes the call raise; it is not skipped.)
\<close>

theorem C6_one_fragment_per_parameter:
  assumes "build_schemas E self = (Inr (), self')" and "base_spec self = JObj items"
  shows "\<exists>ps vs. param_schema self' = Some ps \<and> validator_schema self' = Some vs \<and>
           distinct (map fst (classattrs (inst_class ps))) \<and>
           fst ` set (classattrs (inst_class ps)) = fst ` set items \<and>
           distinct (map fst (classattrs (inst_class vs))) \<and>
           fst ` set (classattrs (inst_class vs)) = fst ` set items"
proof -
  from assms obtain vd pd cleaned where
    comp: "compile_params E self items ([], []) = Inr (vd, pd)" and
    self': "self' = self\<lparr>param_schema := Some (instantiate (make_ParamSchema pd) False),
                  validator_schema := Some (bound_to vd cleaned)\<rparr>"
    by (auto elim!: build_schemas_Inr)
  from compile_params_keys[OF comp] have keys: "fst ` set vd = fst ` set items" "fst ` set pd = fst ` set items"
    by simp_all
  from compile_params_distinct[OF comp] have dist: "distinct (map fst vd)" "distinct (map fst pd)"
    by simp_all
  have "fst ` set (classattrs (make_ParamSchema pd)) = fst ` set items"
    using keys(2) make_ParamSchema_keys[of pd] by (metis set_map)
  moreover have "fst ` set (classattrs (make_ValidatorSchema vd)) = fst ` set items"
    using keys(1) make_ValidatorSchema_keys[of vd] by (metis set_map)
  ultimately show ?thesis
    using dist unfolding self'
    by (simp add: bound_to_simps instantiate_simps make_ParamSchema_keys make_ValidatorSchema_keys)
qed

theorem C6_witness:
  "build_schemas E0 (builder_of baseline_doc year_dims) = (Inr (), built0) \<and>
   (\<exists>ps vs. param_schema built0 = Some ps \<and> validator_schema built0 = Some vs \<and>
           distinct (map fst (classattrs (inst_class ps))) \<and>
           fst ` set (classattrs (inst_class ps)) = {''horizon'', ''rate''} \<and>
           distinct (map fst (classattrs (inst_class vs))) \<and>
           fst ` set (classattrs (inst_class vs)) = {''horizon'', ''rate''})"
  using C6_one_fragment_per_parameter[OF built0_ok, of "[(''horizon'', JObj [(''value'', JArr [JObj [(''value'', JNum 2030)]])]),
           (''rate'', JObj [(''value'', JArr [JObj [(''value'', JNum 5), (''year'', JNum 2020)]])])]"]
    built0_ok
  by (simp add: builder_of_def baseline_doc_def)

lemma built_fragments:
  assumes "self' = self\<lparr>param_schema := Some (instantiate (make_ParamSchema pd) False),
                  validator_schema := Some (bound_to vd cleaned)\<rparr>"
  shows "baseline_fragment self' k = map_option (\<lambda>v. Nested v False) (map_of pd k)"
    and "revision_fragment self' k = map_option (\<lambda>v. Nested (instantiate v True) False) (map_of vd k)"
  unfolding assms baseline_fragment_def revision_fragment_def
  by (simp_all add: instantiate_simps bound_to_simps make_ParamSchema_lookup make_ValidatorSchema_lookup)

lemma individual_for_value:
  "map_of (classattrs (individual_for self ft)) ''value'' = Some (Nested (item_for self ft) True)"
  by (simp add: individual_for_def py_type_def)

lemma Nested_simps: "nested_schema (Nested s m) = s" "nested_many (Nested s m) = m"
  by (simp_all add: Nested_def)

subsection \<open>Every fragment takes a sequence\<close>

text \<open>
  C2, as amended: for every parameter of the baseline specification, the compiled
  value-entry validator is wrapped as "many" in the baseline schema and in the revision
  schema, whatever the baseline declares for the parameter: both schemas take a sequence
  of entries, never a single value. (The source passes \<^verbatim>\<open>many=True\<close> at lines 62 and 73
  as a constant.)
\<close>

theorem C2_always_many:
  assumes "build_schemas E self = (Inr (), self')" and "base_spec self = JObj items"
    and "k \<in> fst ` set items"
  shows "baseline_many self' k = Some True \<and> revision_many self' k = Some True"
proof -
  from assms obtain vd pd cleaned where
    comp: "compile_params E self items ([], []) = Inr (vd, pd)" and
    self': "self' = self\<lparr>param_schema := Some (instantiate (make_ParamSchema pd) False),
                  validator_schema := Some (bound_to vd cleaned)\<rparr>"
    by (auto elim!: build_schemas_Inr)
  from compile_params_keys[OF comp] assms(3) have "k \<in> fst ` set vd" "k \<in> fst ` set pd"
    by simp_all
  then obtain item ind where item: "map_of vd k = Some item" and ind: "map_of pd k = Some ind"
    by (metis weak_map_of_SomeI prod.collapse imageE)
  from compile_params_shape[OF comp] map_of_SomeD[OF ind]
  obtain ft where "ind = individual_for self ft"
    unfolding list_all_iff by fastforce
  then have "baseline_many self' k = Some True"
    unfolding baseline_many_def baseline_value_field_def built_fragments(1)[OF self']
    by (simp add: ind Nested_simps individual_for_value)
  moreover have "revision_many self' k = Some True"
    unfolding revision_many_def built_fragments(2)[OF self']
    by (simp add: item Nested_simps instantiate_simps)
  ultimately show ?thesis by simp
qed

theorem C2_witness:
  "build_schemas E0 (builder_of baseline_doc year_dims) = (Inr (), built0) \<and>
   ''rate'' \<in> fst ` set (entry_fields baseline_doc) \<and>
   baseline_many built0 ''rate'' = Some True \<and> revision_many built0 ''rate'' = Some True"
  using C2_always_many[OF built0_ok, of "entry_fields baseline_doc" "''rate''"] built0_ok
  by (simp add: builder_of_def baseline_doc_def)

text \<open>
  The claim as stated fails where the baseline declares a parameter as a scalar: the
  fragment compiled for \<open>rate\<close> from \<^verbatim>\<open>{"rate": 5}\<close> still takes a sequence.
\<close>

theorem C2_counterexample:
  "map_of (entry_fields scalar_doc) ''rate'' = Some (JNum 5) \<and>
   baseline_many (snd (build_schemas E0 (builder_of scalar_doc year_dims))) ''rate'' = Some True"
  by code_simp

subsection \<open>The value-entry validator\<close>

text \<open>
  C7, as amended: when \<^verbatim>\<open>build_schemas\<close> returns, the value-entry validator of every
  parameter is the same class in the baseline schema and in the revision schema; its
  fields are \<open>value\<close> and the globally declared dimensions, each once; every dimension has
  its validator from the registry; and \<open>value\<close> has the type resolved from the
  parameter's baseline value provided no dimension is named \<open>value\<close>, in which case the
  class is exactly the \<open>value\<close> field followed by the registry. A dimension named
  \<open>value\<close> takes the place of the type validator.
\<close>

theorem C7_value_entry_validator:
  assumes "build_schemas E self = (Inr (), self')" and "base_spec self = JObj items"
    and "distinct (map fst items)" and "distinct (map fst (dim_validators self))"
    and "(k, v) \<in> set items"
  shows "\<exists>ft item. get_type E v = Inr ft \<and>
           baseline_item self' k = Some item \<and> revision_item self' k = Some item \<and>
           fst ` set (classattrs item) = insert ''value'' (fst ` set (dim_validators self)) \<and>
           distinct (map fst (classattrs item)) \<and>
           (\<forall>d. map_of (classattrs item) d =
                  (case map_of (dim_validators self) d of
                     Some f \<Rightarrow> Some f
                   | None \<Rightarrow> if d = ''value'' then Some ft else None)) \<and>
           (''value'' \<notin> fst ` set (dim_validators self) \<longrightarrow>
              classattrs item = (''value'', ft) # dim_validators self)"
proof -
  from assms obtain vd pd cleaned where
    comp: "compile_params E self items ([], []) = Inr (vd, pd)" and
    self': "self' = self\<lparr>param_schema := Some (instantiate (make_ParamSchema pd) False),
                  validator_schema := Some (bound_to vd cleaned)\<rparr>"
    by (auto elim!: build_schemas_Inr)
  from compile_params_entry[OF comp assms(3) assms(5)] obtain ft where
    ft: "get_type E v = Inr ft" and item: "map_of vd k = Some (item_for self ft)"
    and ind: "map_of pd k = Some (individual_for self ft)"
    by blast
  have attrs: "classattrs (item_for self ft) = dict_unpack [(''value'', ft)] (dim_validators self)"
    by (simp add: item_for_def py_type_def)
  have "baseline_item self' k = Some (item_for self ft)"
    unfolding baseline_item_def baseline_value_field_def built_fragments(1)[OF self']
    by (simp add: ind Nested_simps individual_for_value)
  moreover have "revision_item self' k = Some (item_for self ft)"
    unfolding revision_item_def built_fragments(2)[OF self']
    by (simp add: item Nested_simps instantiate_simps)
  moreover have "fst ` set (classattrs (item_for self ft)) =
      insert ''value'' (fst ` set (dim_validators self))"
    unfolding attrs dict_unpack_keys by simp
  moreover have "distinct (map fst (classattrs (item_for self ft)))"
    unfolding attrs by (rule dict_unpack_distinct) simp
  moreover have "map_of (classattrs (item_for self ft)) d =
      (case map_of (dim_validators self) d of
         Some f \<Rightarrow> Some f
       | None \<Rightarrow> if d = ''value'' then Some ft else None)" for d
    unfolding attrs dict_unpack_lookup[OF assms(4)] by (simp split: option.splits)
  moreover have "classattrs (item_for self ft) = (''value'', ft) # dim_validators self"
    if "''value'' \<notin> fst ` set (dim_validators self)"
    unfolding attrs using dict_unpack_append[OF assms(4), of "[(''value'', ft)]"] that by simp
  ultimately show ?thesis using ft by blast
qed

theorem C7_witness:
  "build_schemas E0 (builder_of baseline_doc year_dims) = (Inr (), built0) \<and>
   (''rate'', JObj [(''value'', JArr [JObj [(''value'', JNum 5), (''year'', JNum 2020)]])])
     \<in> set (entry_fields baseline_doc) \<and>
   distinct (map fst (entry_fields baseline_doc)) \<and> distinct (map fst year_dims) \<and>
   ''value'' \<notin> fst ` set year_dims \<and>
   (\<exists>item. baseline_item built0 ''rate'' = Some item \<and> revision_item built0 ''rate'' = Some item \<and>
      classattrs item = (''value'', TypeField Numeric) # year_dims)"
  using C7_value_entry_validator[OF built0_ok, of "entry_fields baseline_doc" "''rate''"
      "JObj [(''value'', JArr [JObj [(''value'', JNum 5), (''year'', JNum 2020)]])]"] built0_ok
  by (auto simp: builder_of_def baseline_doc_def year_dims_def E0_def collaborators_over_def
      resolve_type_def)

text \<open>
  The claim as stated fails for a registry that declares a dimension named \<open>value\<close>: the
  baseline value resolves to the numeric type, and the \<open>value\<close> field of the compiled
  validator is the dimension validator.
\<close>

theorem C7_counterexample:
  "fst (build_schemas E0 (builder_of flag_doc value_dims)) = Inr () \<and>
   map_of (entry_fields flag_doc) ''flag'' = Some (JObj [(''value'', JArr [JObj [(''value'', JNum 1)]])]) \<and>
   get_type E0 (JObj [(''value'', JArr [JObj [(''value'', JNum 1)]])]) = Inr (TypeField Numeric) \<and>
   map_option classattrs (revision_item (snd (build_schemas E0 (builder_of flag_doc value_dims))) ''flag'')
     = Some [(''value'', DimensionField (EnumeratedSet [JNum 1]))] \<and>
   map_option classattrs (baseline_item (snd (build_schemas E0 (builder_of flag_doc value_dims))) ''flag'')
     = Some [(''value'', DimensionField (EnumeratedSet [JNum 1]))]"
  by code_simp

subsection \<open>What a failed build leaves on the builder\<close>

text \<open>
  C1, as amended: a call of \<^verbatim>\<open>build_schemas\<close> that raises never assigns
  \<^verbatim>\<open>validator_schema\<close>. When the error comes from the compilation of the parameters
  (type resolution, or a baseline that is no dictionary) the builder is left as it was, so
  no schema is assigned. When the error comes from loading the baseline through the
  baseline schema, \<^verbatim>\<open>param_schema\<close> has already been assigned and stays on the builder.
\<close>

theorem C1_failed_build:
  assumes "build_schemas E self = (Inl e, self')"
  shows "validator_schema self' = validator_schema self \<and>
         ((compile_all E self = Inl e \<and> self' = self) \<or>
          (\<exists>vd pd. compile_all E self = Inr (vd, pd) \<and>
             load_param_schema E (instantiate (make_ParamSchema pd) False) (base_spec self) = Inl e \<and>
             self' = self\<lparr>param_schema := Some (instantiate (make_ParamSchema pd) False)\<rparr>))"
  using build_schemas_Inl[OF assms] by auto

lemma empty_build:
  "build_schemas E0 (builder_of empty_doc year_dims) =
     (Inl TypeResolutionError, builder_of empty_doc year_dims)"
  by code_simp

theorem C1_witness:
  "build_schemas E0 (builder_of empty_doc year_dims) =
     (Inl TypeResolutionError, builder_of empty_doc year_dims) \<and>
   validator_schema (builder_of empty_doc year_dims) = None \<and>
   param_schema (builder_of empty_doc year_dims) = None \<and>
   compile_all E0 (builder_of empty_doc year_dims) = Inl TypeResolutionError"
  using C1_failed_build[OF empty_build] empty_build
  by (auto simp: builder_of_def)

text \<open>
  The claim as stated fails for a baseline that does not validate (a label below the
  range of its dimension): the call raises, and \<^verbatim>\<open>param_schema\<close>, absent before the
  call, is on the builder after it.
\<close>

theorem C1_counterexample:
  "param_schema (builder_of early_doc year_dims) = None \<and>
   fst (build_schemas E0 (builder_of early_doc year_dims)) =
     Inl (ValidationError [EntryViolation ''rate'' 0 ''year'']) \<and>
   param_schema (snd (build_schemas E0 (builder_of early_doc year_dims))) \<noteq> None"
  by code_simp

lemma load_params_built:
  assumes "validator_schema self = Some vs"
  shows "load_params E self x =
           (case params_of E x of Inl e \<Rightarrow> Inl e | Inr params \<Rightarrow> load_validator_schema E vs params)"
  by (simp add: load_params_def validator_schema_load_def assms split: sum.splits)

subsection \<open>Where the cleaned baseline lives\<close>

text \<open>
  C3, as amended: the cleaned baseline is no argument of revision validation. When
  \<^verbatim>\<open>build_schemas\<close> returns, the result of loading the baseline through the baseline
  schema is stored in the context of the validator schema, under \<open>base_spec\<close>, and every
  later \<^verbatim>\<open>load_params\<close> call validates its argument with that schema object: one
  builder validates revisions against the one baseline it was built with.
\<close>

theorem C3_baseline_cached:
  assumes "build_schemas E self = (Inr (), self')"
  shows "\<exists>ps vs cleaned. param_schema self' = Some ps \<and> validator_schema self' = Some vs \<and>
           load_param_schema E ps (base_spec self) = Inr cleaned \<and>
           schema_context vs = [(''base_spec'', cleaned)] \<and>
           (\<forall>x. load_params E self' x =
                  (case params_of E x of
                     Inl e \<Rightarrow> Inl e
                   | Inr params \<Rightarrow> load_validator_schema E vs params))"
proof -
  from assms obtain vd pd cleaned where
    load: "load_param_schema E (instantiate (make_ParamSchema pd) False) (base_spec self) = Inr cleaned" and
    self': "self' = self\<lparr>param_schema := Some (instantiate (make_ParamSchema pd) False),
                  validator_schema := Some (bound_to vd cleaned)\<rparr>"
    by (auto elim!: build_schemas_Inr)
  have "validator_schema self' = Some (bound_to vd cleaned)" by (simp add: self')
  from load_params_built[OF this] load show ?thesis
    by (simp add: self' bound_to_simps)
qed

theorem C3_witness:
  "build_schemas E0 (builder_of baseline_doc year_dims) = (Inr (), built0) \<and>
   (\<exists>ps vs. param_schema built0 = Some ps \<and> validator_schema built0 = Some vs \<and>
      load_param_schema E0 ps baseline_doc = Inr baseline_doc \<and>
      schema_context vs = [(''base_spec'', baseline_doc)] \<and>
      load_params E0 built0 revision_doc = load_validator_schema E0 vs revision_doc)"
proof -
  from C3_baseline_cached[OF built0_ok] obtain ps vs cleaned where
    *: "param_schema built0 = Some ps" "validator_schema built0 = Some vs"
       "load_param_schema E0 ps (base_spec (builder_of baseline_doc year_dims)) = Inr cleaned"
       "schema_context vs = [(''base_spec'', cleaned)]"
       "\<And>x. load_params E0 built0 x =
                  (case params_of E0 x of
                     Inl e \<Rightarrow> Inl e
                   | Inr params \<Rightarrow> load_validator_schema E0 vs params)"
    by blast
  have "cleaned_baseline built0 = Some baseline_doc"
    unfolding built0_def by code_simp
  with *(2,4) have "cleaned = baseline_doc" by (simp add: cleaned_baseline_def)
  moreover have "params_of E0 revision_doc = Inr revision_doc"
    by (simp add: params_of_def revision_doc_def)
  ultimately show ?thesis using * built0_ok
    by (auto simp: builder_of_def)
qed

text \<open>
  The claim as stated fails: the built validator schema holds the cleaned baseline in its
  context, and two builders whose compiled classes are equal and whose cached baselines
  differ give different outcomes for the same \<^verbatim>\<open>load_params\<close> argument.
\<close>

theorem C3_counterexample:
  "map_option schema_context (validator_schema built0) = Some [(''base_spec'', baseline_doc)] \<and>
   map_option inst_class (validator_schema (snd (build_schemas E0 (builder_of short_doc year_dims))))
     = map_option inst_class (validator_schema built0) \<and>
   load_params E0 built0 revision_doc = Inr revision_doc \<and>
   load_params E0 (snd (build_schemas E0 (builder_of short_doc year_dims))) revision_doc
     = Inl (ValidationError [EntryViolation ''rate'' 0 ''year''])"
  unfolding built0_def by code_simp

lemma compile_all_cong:
  "dim_validators a = dim_validators b \<Longrightarrow> BaseParamSchema a = BaseParamSchema b \<Longrightarrow>
   base_spec a = base_spec b \<Longrightarrow> compile_all E a = compile_all E b"
  unfolding compile_all_def
  by (simp add: compile_params_cong[of a b] split: json.splits)

lemma build_schemas_inputs:
  "BaseParamSchema (snd (build_schemas E self)) = BaseParamSchema self \<and>
   dim_validators (snd (build_schemas E self)) = dim_validators self \<and>
   base_spec (snd (build_schemas E self)) = base_spec self"
  unfolding build_schemas_def
  by (simp add: Let_def split: json.splits sum.splits prod.splits)

lemma build_schemas_Inr_iff:
  "build_schemas E self = (Inr (), self') \<longleftrightarrow>
     (\<exists>vd pd cleaned. compile_all E self = Inr (vd, pd) \<and>
        load_param_schema E (instantiate (make_ParamSchema pd) False) (base_spec self) = Inr cleaned \<and>
        self' = self\<lparr>param_schema := Some (instantiate (make_ParamSchema pd) False),
                      validator_schema := Some (bound_to vd cleaned)\<rparr>)"
  unfolding build_schemas_def compile_all_def bound_to_def
  by (auto simp: Let_def instantiate_def split: json.splits sum.splits prod.splits)

lemma init_unbuilt:
  "SchemaBuilder_init E sp bp fm = Inr self \<Longrightarrow> validator_schema self = None"
  unfolding SchemaBuilder_init_def
  by (auto split: sum.splits prod.splits)

lemma build_keeps_invariant:
  assumes "bound_invariant E self"
  shows "bound_invariant E (snd (build_schemas E self))"
proof (cases "build_schemas E self")
  case (Pair r self')
  have same: "compile_all E self' = compile_all E self" "base_spec self' = base_spec self"
    using build_schemas_inputs[of E self] compile_all_cong[of self' self E]
    by (simp_all add: Pair)
  show ?thesis
  proof (cases r)
    case (Inl e)
    from build_schemas_Inl[OF Pair[unfolded Inl]] show ?thesis
    proof (elim disjE conjE exE)
      assume "self' = self"
      with assms show ?thesis by (simp add: Pair)
    next
      fix vd pd
      assume c: "compile_all E self = Inr (vd, pd)"
        and l: "load_param_schema E (instantiate (make_ParamSchema pd) False) (base_spec self) = Inl e"
        and s: "self' = self\<lparr>param_schema := Some (instantiate (make_ParamSchema pd) False)\<rparr>"
      have "validator_schema self = None"
      proof (cases "validator_schema self")
        case None
        then show ?thesis .
      next
        case (Some vs)
        with assms c l show ?thesis by (auto simp: bound_invariant_def)
      qed
      then show ?thesis by (simp add: Pair s bound_invariant_def)
    qed
  next
    case (Inr u)
    with Pair have "build_schemas E self = (Inr (), self')" by simp
    then obtain vd pd cleaned where c: "compile_all E self = Inr (vd, pd)"
      and l: "load_param_schema E (instantiate (make_ParamSchema pd) False) (base_spec self) = Inr cleaned"
      and s: "self' = self\<lparr>param_schema := Some (instantiate (make_ParamSchema pd) False),
                      validator_schema := Some (bound_to vd cleaned)\<rparr>"
      unfolding build_schemas_Inr_iff by blast
    have "validator_schema self' = Some (bound_to vd cleaned)"
      "param_schema self' = Some (instantiate (make_ParamSchema pd) False)"
      by (simp_all add: s)
    with c l same show ?thesis
      unfolding bound_invariant_def Pair by auto
  qed
qed

lemma reachable_invariant: "reachable E self \<Longrightarrow> bound_invariant E self"
proof (induction rule: reachable.induct)
  case (created schema_def_path base_spec_path field_map self)
  then show ?case by (simp add: bound_invariant_def init_unbuilt)
next
  case (built self)
  from built.IH show ?case by (rule build_keeps_invariant)
qed

subsection \<open>No revision is validated before the baseline is bound\<close>

text \<open>
  C8: on every builder a program can reach (created by \<^verbatim>\<open>__init__\<close>, then any number of
  \<^verbatim>\<open>build_schemas\<close> calls, returning or raising), a \<^verbatim>\<open>load_params\<close> call whose argument
  yields a document either finds no validator schema and raises, validating nothing, or
  validates with a validator schema whose context binds exactly the result of loading the
  builder's baseline specification through its baseline schema.
\<close>

theorem C8_baseline_bound_before_revision:
  assumes "reachable E self" and "params_of E x = Inr params"
  shows "case validator_schema self of
           None \<Rightarrow> load_params E self x = Inl AttributeError
         | Some vs \<Rightarrow>
             load_params E self x = load_validator_schema E vs params \<and>
             (\<exists>ps cleaned. param_schema self = Some ps \<and>
                load_param_schema E ps (base_spec self) = Inr cleaned \<and>
                schema_context vs = [(''base_spec'', cleaned)])"
proof (cases "validator_schema self")
  case None
  then show ?thesis
    by (simp add: load_params_def validator_schema_load_def assms(2))
next
  case (Some vs)
  from reachable_invariant[OF assms(1)] Some obtain vd pd cleaned where
    "param_schema self = Some (instantiate (make_ParamSchema pd) False)"
    "load_param_schema E (instantiate (make_ParamSchema pd) False) (base_spec self) = Inr cleaned"
    "vs = bound_to vd cleaned"
    unfolding bound_invariant_def by blast
  then show ?thesis
    by (simp add: Some load_params_built[OF Some] assms(2) bound_to_simps)
qed

lemma init0: "SchemaBuilder_init E0 ''schema.json'' ''baseline.json'' [] = Inr (builder_of baseline_doc year_dims)"
  by code_simp

lemma reachable_built0: "reachable E0 built0"
  unfolding built0_def by (rule reachable.built, rule reachable.created, rule init0)

theorem C8_witness:
  "reachable E0 built0 \<and> params_of E0 (JStr ''revision.json'') = Inr revision_doc \<and>
   (\<exists>vs ps. validator_schema built0 = Some vs \<and> param_schema built0 = Some ps \<and>
      load_params E0 built0 (JStr ''revision.json'') = load_validator_schema E0 vs revision_doc \<and>
      load_param_schema E0 ps baseline_doc = Inr baseline_doc \<and>
      schema_context vs = [(''base_spec'', baseline_doc)])"
proof -
  have p: "params_of E0 (JStr ''revision.json'') = Inr revision_doc"
    by code_simp
  have c: "cleaned_baseline built0 = Some baseline_doc"
    unfolding built0_def by code_simp
  then obtain vs where vs: "validator_schema built0 = Some vs"
    by (auto simp: cleaned_baseline_def split: option.splits Option.bind_splits)
  have b: "base_spec built0 = baseline_doc"
    unfolding built0_def by code_simp
  from C8_baseline_bound_before_revision[OF reachable_built0 p] vs c b reachable_built0 p
  show ?thesis
    by (auto simp: cleaned_baseline_def)
qed

subsection \<open>Loading the same baseline twice\<close>



subsection \<open>The dispatch of \<^verbatim>\<open>load_params\<close>\<close>



lemma validate_revision_Inl:
  "w \<in> set (concat (map (revision_violations P vs) revision)) \<Longrightarrow>
   validate_revision P vs (JObj revision) =
     Inl (ValidationError (concat (map (revision_violations P vs) revision)))"
proof -
  assume "w \<in> set (concat (map (revision_violations P vs) revision))"
  then have "concat (map (revision_violations P vs) revision) \<noteq> []"
    by (metis empty_iff empty_set)
  then show ?thesis
    unfolding validate_revision_def by (simp add: Let_def)
qed

lemma unknown_listed:
  assumes "(k, v) \<in> set revision" and "map_of (classattrs (inst_class vs)) k = None"
  shows "UnknownParameterError k \<in> set (concat (map (revision_violations P vs) revision))"
proof -
  have "revision_violations P vs (k, v) = [UnknownParameterError k]"
    by (simp add: revision_violations_def assms(2))
  with assms(1) show ?thesis by force
qed

lemma entry_listed:
  assumes "(k, JArr es) \<in> set revision" and "map_of (classattrs (inst_class vs)) k = Some n"
    and "nested_many n \<or> inst_many (nested_schema n)" and "i < length es"
    and "w \<in> set (entry_violations P (schema_context vs) (inst_class (nested_schema n)) k i (es ! i))"
  shows "w \<in> set (concat (map (revision_violations P vs) revision))"
proof -
  have "(i, es ! i) \<in> set (enumerate 0 es)"
    using assms(4) by (simp add: in_set_enumerate_eq)
  then have "w \<in> set (wrapped_violations P (schema_context vs) (inst_class (nested_schema n)) True k (JArr es))"
    unfolding wrapped_violations_def using assms(5) by force
  then have "w \<in> set (revision_violations P vs (k, JArr es))"
    using assms(2,3) by (simp add: revision_violations_def)
  with assms(1) show ?thesis by force
qed

subsection \<open>Unknown parameters, with the validation engine of the spec\<close>

text \<open>
  C4: with the revision schema loading as the spec describes it, on a built builder every
  revision document (however \<^verbatim>\<open>load_params\<close> obtained it) that holds a parameter name
  absent from the baseline specification makes \<^verbatim>\<open>load_params\<close> fail, and the failure
  lists an \<open>UnknownParameterError\<close> for that name.
\<close>

theorem C4_unknown_parameter:
  assumes "build_schemas E self = (Inr (), self')" and "base_spec self = JObj items"
    and "load_validator_schema E = validate_revision P"
    and "params_of E x = Inr (JObj revision)"
    and "k \<in> fst ` set revision" and "k \<notin> fst ` set items"
  shows "\<exists>errs. load_params E self' x = Inl (ValidationError errs) \<and>
           UnknownParameterError k \<in> set errs"
proof -
  from assms(1,2) obtain vd pd cleaned where
    comp: "compile_params E self items ([], []) = Inr (vd, pd)" and
    self': "self' = self\<lparr>param_schema := Some (instantiate (make_ParamSchema pd) False),
                  validator_schema := Some (bound_to vd cleaned)\<rparr>"
    by (auto elim!: build_schemas_Inr)
  have vs: "validator_schema self' = Some (bound_to vd cleaned)" by (simp add: self')
  from compile_params_keys[OF comp] assms(6) have "k \<notin> fst ` set vd" by simp
  then have "map_of vd k = None" by (simp add: map_of_eq_None_iff)
  then have none: "map_of (classattrs (inst_class (bound_to vd cleaned))) k = None"
    by (simp add: bound_to_simps make_ValidatorSchema_lookup)
  from assms(5) obtain v where "(k, v) \<in> set revision" by auto
  from unknown_listed[OF this none]
  have in_errs: "UnknownParameterError k \<in>
      set (concat (map (revision_violations P (bound_to vd cleaned)) revision))" .
  have "load_params E self' x = validate_revision P (bound_to vd cleaned) (JObj revision)"
    by (simp add: load_params_built[OF vs] assms(3,4))
  with validate_revision_Inl[OF in_errs] in_errs show ?thesis by auto
qed

lemma E0_revision_load: "load_validator_schema E0 = validate_revision library_check"
  by (simp add: E0_def collaborators_over_def)

theorem C4_witness:
  "build_schemas E0 (builder_of baseline_doc year_dims) = (Inr (), built0) \<and>
   ''bogus'' \<in> fst ` set (entry_fields bogus_doc) \<and>
   ''bogus'' \<notin> fst ` set (entry_fields baseline_doc) \<and>
   load_params E0 built0 bogus_doc = Inl (ValidationError [UnknownParameterError ''bogus''])"
proof -
  have r: "load_params E0 built0 bogus_doc = Inl (ValidationError [UnknownParameterError ''bogus''])"
    unfolding built0_def by code_simp
  have b: "base_spec (builder_of baseline_doc year_dims) = JObj (entry_fields baseline_doc)"
    by (simp add: builder_of_def baseline_doc_def)
  have p: "params_of E0 bogus_doc = Inr (JObj (entry_fields bogus_doc))"
    by (simp add: params_of_def bogus_doc_def)
  have k: "''bogus'' \<in> fst ` set (entry_fields bogus_doc)"
    "''bogus'' \<notin> fst ` set (entry_fields baseline_doc)"
    by (simp_all add: bogus_doc_def baseline_doc_def)
  from C4_unknown_parameter[OF built0_ok b E0_revision_load p k] r k built0_ok
  show ?thesis by simp
qed

subsection \<open>Batch reporting, with the validation engine of the spec\<close>

text \<open>
  C5: with the revision schema loading as the spec describes it, on a built builder a
  revision in which some entry of some parameter violates its value-entry validator makes
  \<^verbatim>\<open>load_params\<close> fail with one aggregate failure, and that one failure lists every
  violation of every entry of every parameter of the revision, not only the first.
\<close>

theorem C5_all_violations_listed:
  assumes "build_schemas E self = (Inr (), self')"
    and "load_validator_schema E = validate_revision P"
    and "params_of E x = Inr (JObj revision)"
    and "cleaned_baseline self' = Some c"
    and "(k, JArr es) \<in> set revision" and "revision_item self' k = Some item"
    and "i < length es"
    and "w \<in> set (entry_violations P [(''base_spec'', c)] item k i (es ! i))"
  shows "\<exists>errs. load_params E self' x = Inl (ValidationError errs) \<and>
           (\<forall>k' es' item' i' w'.
              (k', JArr es') \<in> set revision \<and> revision_item self' k' = Some item' \<and>
              i' < length es' \<and>
              w' \<in> set (entry_violations P [(''base_spec'', c)] item' k' i' (es' ! i'))
              \<longrightarrow> w' \<in> set errs)"
proof -
  from assms(1) obtain vd pd cleaned where
    self': "self' = self\<lparr>param_schema := Some (instantiate (make_ParamSchema pd) False),
                  validator_schema := Some (bound_to vd cleaned)\<rparr>"
    by (auto elim!: build_schemas_Inr)
  let ?vs = "bound_to vd cleaned"
  let ?errs = "concat (map (revision_violations P ?vs) revision)"
  have vs: "validator_schema self' = Some ?vs" by (simp add: self')
  have c: "c = cleaned" using assms(4) by (simp add: cleaned_baseline_def vs bound_to_simps)
  have listed: "w' \<in> set ?errs"
    if "(k', JArr es') \<in> set revision" "revision_item self' k' = Some item'" "i' < length es'"
      "w' \<in> set (entry_violations P [(''base_spec'', c)] item' k' i' (es' ! i'))"
    for k' es' item' i' w'
  proof -
    from that(2) obtain v where v: "map_of vd k' = Some v" and item': "item' = v"
      unfolding revision_item_def built_fragments(2)[OF self']
      by (auto simp: Nested_simps instantiate_simps)
    have n: "map_of (classattrs (inst_class ?vs)) k' = Some (Nested (instantiate v True) False)"
      by (simp add: bound_to_simps make_ValidatorSchema_lookup v)
    show ?thesis
      by (rule entry_listed[OF that(1) n _ that(3)])
         (simp_all add: Nested_simps instantiate_simps bound_to_simps that(4)[unfolded c item'])
  qed
  from listed[OF assms(5-8)] have "w \<in> set ?errs" .
  from validate_revision_Inl[OF this]
  have "load_params E self' x = Inl (ValidationError ?errs)"
    by (simp add: load_params_built[OF vs] assms(2,3))
  with listed show ?thesis by blast
qed

theorem C5_witness:
  "build_schemas E0 (builder_of baseline_doc year_dims) = (Inr (), built0) \<and>
   params_of E0 three_doc = Inr three_doc \<and>
   cleaned_baseline built0 = Some baseline_doc \<and>
   load_params E0 built0 three_doc =
     Inl (ValidationError [EntryViolation ''rate'' 0 ''value'', EntryViolation ''rate'' 0 ''year'',
                           EntryViolation ''horizon'' 0 ''value''])"
proof -
  have r: "load_params E0 built0 three_doc =
     Inl (ValidationError [EntryViolation ''rate'' 0 ''value'', EntryViolation ''rate'' 0 ''year'',
                           EntryViolation ''horizon'' 0 ''value''])"
    unfolding built0_def by code_simp
  have p: "params_of E0 three_doc = Inr (JObj (entry_fields three_doc))"
    by (simp add: params_of_def three_doc_def)
  have c: "cleaned_baseline built0 = Some baseline_doc"
    unfolding built0_def by code_simp
  have m: "(''rate'', JArr [JObj [(''value'', JStr ''x''), (''year'', JNum 1990)]])
      \<in> set (entry_fields three_doc)"
    by (simp add: three_doc_def)
  have it: "revision_item built0 ''rate'' = Some (item_for (builder_of baseline_doc year_dims) (TypeField Numeric))"
    unfolding built0_def by code_simp
  have w: "EntryViolation ''rate'' 0 ''year'' \<in>
      set (entry_violations library_check [(''base_spec'', baseline_doc)]
             (item_for (builder_of baseline_doc year_dims) (TypeField Numeric)) ''rate'' 0
             ([JObj [(''value'', JStr ''x''), (''year'', JNum 1990)]] ! 0))"
    by code_simp
  have i: "(0::nat) < length [JObj [(''value'', JStr ''x''), (''year'', JNum 1990)]]" by simp
  from C5_all_violations_listed[OF built0_ok E0_revision_load p c m it i w] r c p built0_ok
  show ?thesis by (simp add: three_doc_def)
qed

end
